theory Spec2Isabelle
  imports Complex_Main
begin

section \<open>Python values\<close>

text \<open>
  The orchestration code of \<^verbatim>\<open>alz_app/app/backend.py\<close> works on the dictionaries that the
  modality runners return and that \<^verbatim>\<open>json.load\<close> reads back: nested dicts, lists, strings,
  numbers, booleans and \<^verbatim>\<open>None\<close>.  A dict is an association list in insertion order; a
  number carries its exact value (an \<^verbatim>\<open>int\<close>, or the value of a finite \<^verbatim>\<open>float\<close>).
\<close>

datatype json =
    JNull
  | JBool bool
  | JNum real
  | JStr string
  | JArr "json list"
  | JObj "(string \<times> json) list"

text \<open>The exceptions that the modelled statements can raise.\<close>

datatype exn = AttributeError | TypeError | ValueError | ZeroDivisionError | OSError | SystemExit

text \<open>Python truthiness (\<^verbatim>\<open>if x:\<close>, \<^verbatim>\<open>x or y\<close>).\<close>

fun truthy :: "json \<Rightarrow> bool" where
  "truthy JNull = False"
| "truthy (JBool b) = b"
| "truthy (JNum v) = (v \<noteq> 0)"
| "truthy (JStr s) = (s \<noteq> [])"
| "truthy (JArr xs) = (xs \<noteq> [])"
| "truthy (JObj kvs) = (kvs \<noteq> [])"

text \<open>
  \<^verbatim>\<open>x.get(key, default)\<close>: only a dict has the method; on any other value the attribute
  lookup raises \<^verbatim>\<open>AttributeError\<close>.
\<close>

fun py_get :: "json \<Rightarrow> string \<Rightarrow> json \<Rightarrow> exn + json" where
  "py_get (JObj kvs) k d = Inr (case map_of kvs k of None \<Rightarrow> d | Some v \<Rightarrow> v)"
| "py_get _ k d = Inl AttributeError"

text \<open>\<^verbatim>\<open>d[key] = value\<close>: replaces the value of a present key in place, appends a new key.\<close>

fun dict_set :: "(string \<times> json) list \<Rightarrow> string \<Rightarrow> json \<Rightarrow> (string \<times> json) list" where
  "dict_set [] k v = [(k, v)]"
| "dict_set ((k', v') # kvs) k v = (if k' = k then (k, v) # kvs else (k', v') # dict_set kvs k v)"

section \<open>Binary64 arithmetic\<close>

text \<open>
  A Python \<^verbatim>\<open>float\<close> is an IEEE 754 binary64 number, and every arithmetic operation returns
  the exact result rounded to the nearest representable number, ties to the even significand.
  \<open>fl\<close> is that rounding, on the finite numbers with an unbounded exponent range: the
  significand has 53 bits, overflow to infinity and gradual underflow (magnitudes beyond
  about \<open>10\<^sup>3\<^sup>0\<^sup>8\<close> and below about \<open>10\<^sup>-\<^sup>3\<^sup>0\<^sup>8\<close>) and the values \<^verbatim>\<open>inf\<close> and \<^verbatim>\<open>nan\<close> are
  outside the model.
\<close>

definition rhe :: "real \<Rightarrow> real" where
  \<comment> \<open>round to the nearest integer, ties to even\<close>
  "rhe x = (let f = \<lfloor>x\<rfloor>; d = x - of_int f in
     if d < 1 / 2 then of_int f
     else if 1 / 2 < d then of_int (f + 1)
     else if even f then of_int f else of_int (f + 1))"

function round_hi :: "real \<Rightarrow> real" where
  "round_hi x = (if 2 ^ 53 \<le> x then 2 * round_hi (x / 2) else rhe x)"
  by pat_completeness auto
termination
proof (relation "measure (\<lambda>x. nat \<lfloor>x\<rfloor>)")
  show "wf (measure (\<lambda>x::real. nat \<lfloor>x\<rfloor>))" by simp
next
  fix x :: real
  assume h: "2 ^ 53 \<le> x"
  have "\<lfloor>x / 2\<rfloor> < \<lfloor>x\<rfloor>" using h by (simp add: floor_less_iff) linarith
  moreover have "0 < \<lfloor>x\<rfloor>" using h by (simp add: less_floor_iff)
  ultimately show "(x / 2, x) \<in> measure (\<lambda>x. nat \<lfloor>x\<rfloor>)" by simp
qed

function round_lo :: "real \<Rightarrow> real" where
  "round_lo x = (if 0 < x \<and> x < 2 ^ 52 then round_lo (2 * x) / 2 else rhe x)"
  by pat_completeness auto
termination
proof (relation "measure (\<lambda>x. nat \<lfloor>2 ^ 52 / x\<rfloor>)")
  show "wf (measure (\<lambda>x::real. nat \<lfloor>2 ^ 52 / x\<rfloor>))" by simp
next
  fix x :: real
  assume h: "0 < x \<and> x < 2 ^ 52"
  define y where "y = 2 ^ 52 / x"
  have y1: "1 < y" using h by (simp add: y_def)
  have fy: "1 \<le> \<lfloor>y\<rfloor>" using y1 by (simp add: le_floor_iff)
  have "y / 2 < of_int \<lfloor>y\<rfloor>"
  proof -
    have "y < of_int \<lfloor>y\<rfloor> + 1" by linarith
    moreover have "(1::real) \<le> of_int \<lfloor>y\<rfloor>" using fy by linarith
    ultimately show ?thesis by linarith
  qed
  then have "\<lfloor>y / 2\<rfloor> < \<lfloor>y\<rfloor>" by (simp add: floor_less_iff)
  moreover have "2 ^ 52 / (2 * x) = y / 2" by (simp add: y_def)
  ultimately show "(2 * x, x) \<in> measure (\<lambda>x. nat \<lfloor>2 ^ 52 / x\<rfloor>)"
    using fy by (simp add: y_def)
qed

declare round_hi.simps [simp del]
declare round_lo.simps [simp del]

definition fl :: "real \<Rightarrow> real" where
  "fl x = (if x = 0 then 0
           else if x < 0 then - (if 2 ^ 52 \<le> - x then round_hi (- x) else round_lo (- x))
           else (if 2 ^ 52 \<le> x then round_hi x else round_lo x))"


text \<open>
  \<^verbatim>\<open>sum(xs)\<close> on a list of floats depends on the interpreter.  Up to CPython 3.11 it starts
  from the integer 0 and adds the items from left to right, rounding after every addition
  (\<open>sum_plain\<close>).  From CPython 3.12 on it adds the first item to 0 and the others with
  Neumaier's compensated summation (\<open>sum_compensated\<close>): beside the running sum \<open>f\<close> it
  keeps the sum \<open>c\<close> of the rounding errors of the additions, each computed in floats from
  the new running sum \<open>fl (f + x)\<close>, and adds \<open>c\<close> at the end when it is not zero.  \<open>py_sum\<close> takes the choice as a flag.
\<close>

definition sum_plain :: "real list \<Rightarrow> real" where
  "sum_plain xs = foldl (\<lambda>a x. fl (a + x)) 0 xs"

fun neumaier :: "real \<Rightarrow> real \<Rightarrow> real list \<Rightarrow> real" where
  "neumaier f c [] = (if c \<noteq> 0 then fl (f + c) else f)"
| "neumaier f c (x # xs) =
     neumaier (fl (f + x))
       (if \<bar>x\<bar> \<le> \<bar>f\<bar> then fl (c + fl (fl (f - fl (f + x)) + x))
        else fl (c + fl (fl (x - fl (f + x)) + f)))
       xs"

definition sum_compensated :: "real list \<Rightarrow> real" where
  "sum_compensated xs = (case xs of [] \<Rightarrow> 0 | x # rest \<Rightarrow> neumaier (fl (0 + x)) 0 rest)"

definition py_sum :: "bool \<Rightarrow> real list \<Rightarrow> real" where
  "py_sum compensated xs = (if compensated then sum_compensated xs else sum_plain xs)"

text \<open>
  \<^verbatim>\<open>float(x)\<close>: a number is converted (rounded) to binary64, a boolean is 1.0 or 0.0, a
  string is parsed, anything else is a \<^verbatim>\<open>TypeError\<close>.  The decimal parser of the interpreter is
  the parameter \<open>parse\<close>: it gives the exact value that the text denotes, or \<open>None\<close> where
  \<^verbatim>\<open>float\<close> raises \<^verbatim>\<open>ValueError\<close>.
\<close>

fun py_float :: "(string \<Rightarrow> real option) \<Rightarrow> json \<Rightarrow> exn + real" where
  "py_float parse (JNum v) = Inr (fl v)"
| "py_float parse (JBool b) = Inr (if b then 1 else 0)"
| "py_float parse (JStr s) = (case parse s of None \<Rightarrow> Inl ValueError | Some v \<Rightarrow> Inr (fl v))"
| "py_float parse JNull = Inl TypeError"
| "py_float parse (JArr xs) = Inl TypeError"
| "py_float parse (JObj kvs) = Inl TypeError"

section \<open>The environment of \<^verbatim>\<open>predict_subject\<close>\<close>

text \<open>
  What the function depends on outside its arguments: the interpreter (the parser behind
  \<^verbatim>\<open>float(str)\<close>, and whether \<^verbatim>\<open>sum\<close> is the compensated one), the predictions files and the
  output directory.  \<^verbatim>\<open>csv.DictReader\<close> yields one dict per data
  row, from the header's column names to the row's cells; a cell missing at the end of a short
  row is \<^verbatim>\<open>None\<close>.  Reading is lazy, so a file is the sequence of its rows, possibly cut by a
  fault (a decoding error, say) at the point where reading raises.  \<open>read_csv path\<close> is
  \<open>None\<close> when \<^verbatim>\<open>open\<close> raises.  \<open>report_writable sid\<close> tells whether the report of subject
  \<open>sid\<close> can be written under the output directory.
\<close>

datatype csv_item = Row "(string \<times> string option) list" | ReadFault

record env =
  str_to_float :: "string \<Rightarrow> real option"
  compensated_sum :: bool
  read_csv :: "json \<Rightarrow> csv_item list option"
  report_writable :: "string \<Rightarrow> bool"

fun cell :: "string option option \<Rightarrow> json \<Rightarrow> json" where
  \<comment> \<open>\<^verbatim>\<open>row.get(key, default)\<close> as a Python value\<close>
  "cell None d = d"
| "cell (Some None) d = JNull"
| "cell (Some (Some s)) d = JStr s"

section \<open>\<^verbatim>\<open>predict_subject\<close>\<close>

text \<open>
  Lines 72 to 77: the inline predictions.  Iterating a list gives its items; each item must
  be a dict for \<^verbatim>\<open>p.get\<close>.  The loop stops at the first item whose \<^verbatim>\<open>subject_id\<close> equals the
  queried one.
\<close>

fun scan_preds :: "string \<Rightarrow> json list \<Rightarrow> exn + json option" where
  "scan_preds sid [] = Inr None"
| "scan_preds sid (p # ps) =
     (case py_get p ''subject_id'' JNull of
        Inl e \<Rightarrow> Inl e
      | Inr v \<Rightarrow> if v = JStr sid then Inr (Some p) else scan_preds sid ps)"

definition find_inline :: "string \<Rightarrow> json \<Rightarrow> exn + json option" where
  "find_inline sid summary =
     (case py_get summary ''predictions'' JNull of
        Inl e \<Rightarrow> Inl e
      | Inr preds \<Rightarrow>
          if truthy preds then
            (case preds of
               JArr ps \<Rightarrow> scan_preds sid ps
             | JObj kvs \<Rightarrow> Inl AttributeError
             | JStr s \<Rightarrow> Inl AttributeError
             | _ \<Rightarrow> Inl TypeError)
          else Inr None)"

text \<open>
  Lines 80 to 89: the predictions file.  Every exception inside the \<^verbatim>\<open>try\<close> block (the file
  cannot be opened, a read fault, a probability that \<^verbatim>\<open>float\<close> rejects) ends the search with
  \<^verbatim>\<open>pred = None\<close>.
\<close>

fun scan_rows :: "(string \<Rightarrow> real option) \<Rightarrow> string \<Rightarrow> csv_item list \<Rightarrow> json option" where
  "scan_rows parse sid [] = None"
| "scan_rows parse sid (ReadFault # rest) = None"
| "scan_rows parse sid (Row r # rest) =
     (if cell (map_of r ''subject_id'') JNull = JStr sid then
        (case py_float parse (cell (map_of r ''probability'') (JNum 0)) of
           Inl e \<Rightarrow> None
         | Inr v \<Rightarrow> Some (JObj [(''subject_id'', cell (map_of r ''subject_id'') JNull),
                               (''predicted_label'', cell (map_of r ''predicted_label'') JNull),
                               (''probability'', JNum v)]))
      else scan_rows parse sid rest)"

definition find_csv :: "env \<Rightarrow> string \<Rightarrow> json \<Rightarrow> json option" where
  "find_csv E sid path =
     (case read_csv E path of None \<Rightarrow> None | Some items \<Rightarrow> scan_rows (str_to_float E) sid items)"

definition find_pred :: "env \<Rightarrow> string \<Rightarrow> json \<Rightarrow> exn + json option" where
  "find_pred E sid summary =
     (case find_inline sid summary of
        Inl e \<Rightarrow> Inl e
      | Inr (Some p) \<Rightarrow> Inr (Some p)
      | Inr None \<Rightarrow>
          (case py_get summary ''predictions_path'' JNull of
             Inl e \<Rightarrow> Inl e
           | Inr path \<Rightarrow> if truthy path then Inr (find_csv E sid path) else Inr None))"

text \<open>Lines 98 to 104: the weight of a modality.\<close>

definition derive_weight :: "(string \<Rightarrow> real option) \<Rightarrow> json \<Rightarrow> exn + real" where
  "derive_weight parse summary =
     (case py_get summary ''auc'' JNull of
        Inl e \<Rightarrow> Inl e
      | Inr a \<Rightarrow>
          if truthy a then py_float parse a
          else
            (case py_get summary ''accuracy'' JNull of
               Inl e \<Rightarrow> Inl e
             | Inr c \<Rightarrow>
                 if truthy c then py_float parse c
                 else
                   (case py_get summary ''metrics'' JNull of
                      Inl e \<Rightarrow> Inl e
                    | Inr m \<Rightarrow>
                        (case py_get (if truthy m then m else JObj []) ''auc'' JNull of
                           Inl e \<Rightarrow> Inl e
                         | Inr ma \<Rightarrow> if truthy ma then py_float parse ma else Inr 1))))"

text \<open>The variables of the loop over the modalities (lines 64 to 67).\<close>

record agg_state =
  acc_per_module :: "(string \<times> json) list"
  probs :: "real list"
  weights :: "real list"
  missing :: "string list"

definition init_state :: agg_state where
  "init_state = \<lparr>acc_per_module = [], probs = [], weights = [], missing = []\<rparr>"

text \<open>One round of the loop (lines 70 to 106), for the modality \<open>name\<close> with result \<open>summary\<close>.\<close>

definition process_module :: "env \<Rightarrow> string \<Rightarrow> agg_state \<Rightarrow> string \<times> json \<Rightarrow> exn + agg_state" where
  "process_module E sid st nm =
     (case find_pred E sid (snd nm) of
        Inl e \<Rightarrow> Inl e
      | Inr None \<Rightarrow>
          (case py_get (snd nm) ''interpretation'' (JStr []) of
             Inl e \<Rightarrow> Inl e
           | Inr txt \<Rightarrow>
               Inr (st\<lparr>acc_per_module :=
                          dict_set (acc_per_module st) (fst nm)
                            (JObj [(''status'', JStr ''missing''), (''interpretation'', txt)]),
                        missing := missing st @ [fst nm]\<rparr>))
      | Inr (Some pred) \<Rightarrow>
          (case py_get pred ''probability'' (JNum 0) of
             Inl e \<Rightarrow> Inl e
           | Inr pv \<Rightarrow>
               (case py_float (str_to_float E) pv of
                  Inl e \<Rightarrow> Inl e
                | Inr prob \<Rightarrow>
                    (case py_get pred ''predicted_label'' JNull of
                       Inl e \<Rightarrow> Inl e
                     | Inr lab \<Rightarrow>
                         (case derive_weight (str_to_float E) (snd nm) of
                            Inl e \<Rightarrow> Inl e
                          | Inr weight \<Rightarrow>
                              Inr (st\<lparr>acc_per_module :=
                                         dict_set (acc_per_module st) (fst nm)
                                           (JObj [(''status'', JStr ''ok''), (''probability'', JNum prob),
                                                  (''label'', lab)]),
                                       probs := probs st @ [fl (prob * weight)],
                                       weights := weights st @ [weight]\<rparr>))))))"

fun run_loop :: "env \<Rightarrow> string \<Rightarrow> agg_state \<Rightarrow> (string \<times> json) list \<Rightarrow> exn + agg_state" where
  "run_loop E sid st [] = Inr st"
| "run_loop E sid st (nm # rest) =
     (case process_module E sid st nm of
        Inl e \<Rightarrow> Inl e
      | Inr st' \<Rightarrow> run_loop E sid st' rest)"

text \<open>
  The returned dict.  Its \<^verbatim>\<open>final_text\<close> (a sentence in Persian with the probability to three
  places) and \<^verbatim>\<open>report_path\<close> are not modelled.
\<close>

record report =
  subject_id :: string
  per_module :: "(string \<times> json) list"
  ensemble :: json
  final_label :: string

text \<open>Lines 108 to 127: the combination.  Dividing by a zero sum of weights raises.\<close>

definition combine :: "env \<Rightarrow> string \<Rightarrow> real \<Rightarrow> agg_state \<Rightarrow> exn + report" where
  "combine E sid threshold st =
     (if weights st \<noteq> [] then
        (if py_sum (compensated_sum E) (weights st) = 0 then Inl ZeroDivisionError
         else
           (let ensemble_prob = fl (py_sum (compensated_sum E) (probs st) /
                                    py_sum (compensated_sum E) (weights st));
                ensemble_label = (if threshold \<le> ensemble_prob then ''AD'' else ''CN'')
            in Inr \<lparr>subject_id = sid, per_module = acc_per_module st,
                     ensemble = JObj [(''available_modules'', JNum (real (length (weights st)))),
                                      (''missing_modules'', JArr (map JStr (missing st))),
                                      (''probability'', JNum ensemble_prob),
                                      (''label'', JStr ensemble_label)],
                     final_label = ensemble_label\<rparr>))
      else
        Inr \<lparr>subject_id = sid, per_module = acc_per_module st,
             ensemble = JObj [(''available_modules'', JNum (real (length (weights st)))),
                              (''missing_modules'', JArr (map JStr (missing st))),
                              (''probability'', JNull),
                              (''label'', JStr ''unknown'')],
             final_label = ''unknown''\<rparr>)"

text \<open>
  The whole function: the loop over \<^verbatim>\<open>results.items()\<close>, the combination, and the write of the
  report (lines 131 to 142), which raises when the file cannot be written.
\<close>

definition predict_subject :: "env \<Rightarrow> string \<Rightarrow> (string \<times> json) list \<Rightarrow> real \<Rightarrow> exn + report" where
  "predict_subject E sid results threshold =
     (case run_loop E sid init_state results of
        Inl e \<Rightarrow> Inl e
      | Inr st \<Rightarrow>
          (case combine E sid threshold st of
             Inl e \<Rightarrow> Inl e
           | Inr rep \<Rightarrow> if report_writable E sid then Inr rep else Inl OSError))"


text \<open>The status recorded for a modality in \<^verbatim>\<open>per_module\<close>.\<close>

definition entry_status :: "json \<Rightarrow> string" where
  "entry_status e = (case py_get e ''status'' JNull of Inr (JStr s) \<Rightarrow> s | _ \<Rightarrow> [])"

text \<open>
  The probabilities recorded in \<^verbatim>\<open>per_module\<close>, in its order: one for each modality that
  contributed (an entry of a missing modality has no \<^verbatim>\<open>probability\<close>).
\<close>

definition entry_probability :: "json \<Rightarrow> real list" where
  "entry_probability e = (case py_get e ''probability'' JNull of Inr (JNum p) \<Rightarrow> [p] | _ \<Rightarrow> [])"

definition ok_probabilities :: "(string \<times> json) list \<Rightarrow> real list" where
  "ok_probabilities pm = concat (map (\<lambda>ne. entry_probability (snd ne)) pm)"

section \<open>The weight rule as the specification words it\<close>

text \<open>
  The specification prefers, in order, a top-level \<^verbatim>\<open>auc\<close> that is present and truthy, a
  top-level \<^verbatim>\<open>accuracy\<close> that is present and truthy, a nested \<^verbatim>\<open>metrics.auc\<close> that is present
  and truthy, and the default 1.0.  \<open>weight_source\<close> is the metric so chosen, \<open>spec_weight\<close>
  its value as a float.  \<open>metrics_ok\<close> says that \<^verbatim>\<open>metrics\<close> is what the data model allows: absent,
  empty or a mapping.
\<close>

fun is_dict :: "json \<Rightarrow> bool" where
  "is_dict (JObj kvs) = True"
| "is_dict _ = False"

definition present_truthy :: "(string \<times> json) list \<Rightarrow> string \<Rightarrow> json option" where
  "present_truthy kvs k =
     (case map_of kvs k of None \<Rightarrow> None | Some v \<Rightarrow> if truthy v then Some v else None)"

definition weight_source :: "(string \<times> json) list \<Rightarrow> json option" where
  "weight_source kvs =
     (case present_truthy kvs ''auc'' of
        Some v \<Rightarrow> Some v
      | None \<Rightarrow>
          (case present_truthy kvs ''accuracy'' of
             Some v \<Rightarrow> Some v
           | None \<Rightarrow>
               (case map_of kvs ''metrics'' of
                  Some (JObj ms) \<Rightarrow> present_truthy ms ''auc''
                | _ \<Rightarrow> None)))"

definition spec_weight :: "(string \<Rightarrow> real option) \<Rightarrow> (string \<times> json) list \<Rightarrow> exn + real" where
  "spec_weight parse kvs = (case weight_source kvs of None \<Rightarrow> Inr 1 | Some v \<Rightarrow> py_float parse v)"

definition metrics_ok :: "(string \<times> json) list \<Rightarrow> bool" where
  "metrics_ok kvs = (case map_of kvs ''metrics'' of None \<Rightarrow> True | Some m \<Rightarrow> is_dict m \<or> \<not> truthy m)"

section \<open>\<^verbatim>\<open>run_all_analyses\<close>\<close>

text \<open>
  The progress hook, when given, is called with the module name, a status, a fraction and a
  message; it returns or raises.  A modality runner is called once, with the data root, the
  simulation flag and the hook.  Its body works on the file system and on external tools, so
  the call is a parameter here, with three outcomes: it returns its summary dict; it raises an
  instance of \<^verbatim>\<open>Exception\<close>, of which \<^verbatim>\<open>str(e)\<close> is kept; or it raises an exception that is not
  an instance of \<^verbatim>\<open>Exception\<close> (\<^verbatim>\<open>SystemExit\<close>, \<^verbatim>\<open>KeyboardInterrupt\<close>, \<^verbatim>\<open>GeneratorExit\<close>), which
  the handler \<^verbatim>\<open>except Exception\<close> of line 36 lets through.
\<close>

datatype outcome = Raised string | Exited | Returned "(string \<times> json) list"

type_synonym hook = "string \<Rightarrow> json \<Rightarrow> real \<Rightarrow> json \<Rightarrow> exn option"

type_synonym runner = "string \<Rightarrow> bool \<Rightarrow> hook option \<Rightarrow> outcome"

record runners =
  run_mri_pet :: runner
  run_eeg :: runner
  run_adni_pipeline :: runner
  run_tadpole :: runner
  run_proteomics :: runner

definition modules :: "runners \<Rightarrow> (string \<times> runner) list" where
  "modules R = [(''mri_pet'', run_mri_pet R), (''eeg'', run_eeg R), (''adni'', run_adni_pipeline R),
                (''tadpole'', run_tadpole R), (''proteomics'', run_proteomics R)]"

definition call_hook :: "hook option \<Rightarrow> string \<Rightarrow> json \<Rightarrow> real \<Rightarrow> json \<Rightarrow> exn option" where
  \<comment> \<open>\<^verbatim>\<open>if progress_hook: progress_hook(...)\<close>\<close>
  "call_hook h name status fraction msg =
     (case h of None \<Rightarrow> None | Some f \<Rightarrow> f name status fraction msg)"

definition run_module ::
  "string \<Rightarrow> bool \<Rightarrow> hook option \<Rightarrow> runner \<Rightarrow> exn + (string \<times> json) list" where
  \<comment> \<open>lines 34 to 37: the call inside \<^verbatim>\<open>try\<close>, with the handler's replacement summary\<close>
  "run_module data_root simulate_if_missing progress_hook func =
     (case func data_root simulate_if_missing progress_hook of
        Returned summary \<Rightarrow> Inr summary
      | Raised e \<Rightarrow> Inr [(''status'', JStr ''error''),
                         (''interpretation'', JStr (''Module raised exception: '' @ e))]
      | Exited \<Rightarrow> Inl SystemExit)"

definition dict_get :: "(string \<times> json) list \<Rightarrow> string \<Rightarrow> json \<Rightarrow> json" where
  "dict_get kvs k d = (case map_of kvs k of None \<Rightarrow> d | Some v \<Rightarrow> v)"

fun run_modules ::
  "string \<Rightarrow> bool \<Rightarrow> hook option \<Rightarrow> nat \<Rightarrow> nat \<Rightarrow> (string \<times> json) list \<Rightarrow>
   (string \<times> runner) list \<Rightarrow> exn + (string \<times> json) list" where
  "run_modules data_root sim h n_total i results [] = Inr results"
| "run_modules data_root sim h n_total i results ((name, func) # rest) =
     (case call_hook h name (JStr ''queued'') (fl ((real i - 1) / real n_total))
             (JStr (''About to run '' @ name)) of
        Some e \<Rightarrow> Inl e
      | None \<Rightarrow>
          (case run_module data_root sim h func of
             Inl e \<Rightarrow> Inl e
           | Inr summary \<Rightarrow>
               (case call_hook h name (dict_get summary ''status'' (JStr ''finished''))
                       (fl (real i / real n_total)) (dict_get summary ''interpretation'' (JStr [])) of
                  Some e \<Rightarrow> Inl e
                | None \<Rightarrow>
                    run_modules data_root sim h n_total (Suc i) (dict_set results name (JObj summary)) rest)))"

definition run_all_analyses ::
  "runners \<Rightarrow> bool \<Rightarrow> string \<Rightarrow> bool \<Rightarrow> hook option \<Rightarrow> exn + (string \<times> json) list" where
  \<comment> \<open>\<open>writable\<close>: whether \<^verbatim>\<open>aggregate_results.json\<close> can be written (lines 44 to 46)\<close>
  "run_all_analyses R writable data_root simulate_if_missing progress_hook =
     (case run_modules data_root simulate_if_missing progress_hook (length (modules R)) 1 []
             (modules R) of
        Inl e \<Rightarrow> Inl e
      | Inr results \<Rightarrow> if writable then Inr results else Inl OSError)"

section \<open>The simulation path of a modality runner\<close>

text \<open>
  \<^verbatim>\<open>run_mri_pet\<close> (lines 117 to 120) and \<^verbatim>\<open>run_eeg\<close> (lines 87 to 90) make one prediction per
  subject from a draw \<open>g\<close> of \<^verbatim>\<open>random.gauss\<close>: the probability is the draw clamped to
  [0.01, 0.99], the label is taken from it, and the dict stores the probability rounded to
  three decimal places.  \<^verbatim>\<open>round(x, 3)\<close> rounds the exact value of \<open>x\<close> to the nearest multiple
  of 0.001, ties to even, and returns the nearest float.
\<close>

definition py_round3 :: "real \<Rightarrow> real" where
  "py_round3 x = fl (rhe (x * 1000) / 1000)"

definition clamp_prob :: "real \<Rightarrow> real" where
  "clamp_prob g = min (fl (99 / 100)) (max (fl (1 / 100)) g)"

definition simulated_prediction :: "string \<Rightarrow> real \<Rightarrow> json" where
  "simulated_prediction s g =
     (let prob = clamp_prob g;
          label = (if 1 / 2 \<le> prob then ''AD'' else ''CN'')
      in JObj [(''subject_id'', JStr s), (''predicted_label'', JStr label),
               (''probability'', JNum (py_round3 prob))])"

definition simulate_preds :: "string list \<Rightarrow> real list \<Rightarrow> json list" where
  \<comment> \<open>the loop over the subjects, the i-th subject with the i-th draw\<close>
  "simulate_preds subjects draws = map (\<lambda>sg. simulated_prediction (fst sg) (snd sg)) (zip subjects draws)"

section \<open>Sample inputs\<close>

text \<open>
  An environment with the compensated \<^verbatim>\<open>sum\<close>, in which the report can be written, no
  predictions file exists but \<^verbatim>\<open>eeg_predictions.csv\<close>, and \<^verbatim>\<open>float\<close> parses the two texts that
  occur in it.
\<close>

definition sample_env :: env where
  "sample_env =
     \<lparr>str_to_float = (\<lambda>s. if s = ''0.9'' then Some (9 / 10) else if s = ''0.25'' then Some (1 / 4) else None),
      compensated_sum = True,
      read_csv = (\<lambda>p. if p = JStr ''eeg_predictions.csv''
                       then Some [Row [(''subject_id'', Some ''SUBJ001''), (''predicted_label'', Some ''AD''),
                                       (''probability'', Some ''0.9'')],
                                  Row [(''subject_id'', Some ''SUBJ002''), (''predicted_label'', Some ''CN''),
                                       (''probability'', Some ''n/a'')],
                                  Row [(''subject_id'', Some ''SUBJ003''), (''predicted_label'', Some ''CN''),
                                       (''probability'', Some ''0.25'')]]
                       else None),
      report_writable = (\<lambda>sid. True)\<rparr>"

definition sample_pred :: "string \<Rightarrow> string \<Rightarrow> real \<Rightarrow> json" where
  "sample_pred sid lab p =
     JObj [(''subject_id'', JStr sid), (''predicted_label'', JStr lab), (''probability'', JNum p)]"

text \<open>
  The same environment with an output directory that has no sub-directory.  The report goes to
  \<^verbatim>\<open>outputs/subject_<id>_report.json\<close>; only \<^verbatim>\<open>outputs\<close> itself is created (line 132), so for
  a subject id with a slash in it the parent directory of the report does not exist and
  \<^verbatim>\<open>open\<close> raises \<^verbatim>\<open>FileNotFoundError\<close>, an \<^verbatim>\<open>OSError\<close>.
\<close>

definition flat_outputs_env :: env where
  "flat_outputs_env = sample_env\<lparr>report_writable := (\<lambda>sid. CHR ''/'' \<notin> set sid)\<rparr>"



text \<open>
  Runners for a data root without its \<^verbatim>\<open>EEG_LEAD\<close> folder content: the MRI and PET runner
  returns a summary, the EEG runner raises, the other three report an error in their summary.
  In \<open>exiting_runners\<close> the EEG runner ends with \<^verbatim>\<open>SystemExit\<close> instead.
\<close>

definition sample_runners :: runners where
  "sample_runners =
     \<lparr>run_mri_pet = (\<lambda>root sim h. Returned [(''status'', JStr ''success''), (''auc'', JNum (9 / 10))]),
      run_eeg = (\<lambda>root sim h. Raised ''cannot read Feature''),
      run_adni_pipeline = (\<lambda>root sim h. Returned [(''status'', JStr ''error'')]),
      run_tadpole = (\<lambda>root sim h. Returned [(''status'', JStr ''error'')]),
      run_proteomics = (\<lambda>root sim h. Returned [(''status'', JStr ''error'')])\<rparr>"

definition exiting_runners :: runners where
  "exiting_runners = sample_runners\<lparr>run_eeg := (\<lambda>root sim h. Exited)\<rparr>"


section \<open>Facts about the loop\<close>


lemma find_pred_dict: "find_pred E sid s = Inr x \<Longrightarrow> \<exists>kvs. s = JObj kvs"
  by (cases s) (simp_all add: find_pred_def find_inline_def)

lemma process_module_missing:
  assumes "find_pred E sid (snd nm) = Inr None"
  shows "\<exists>itp. process_module E sid st nm =
           Inr (st\<lparr>acc_per_module := dict_set (acc_per_module st) (fst nm)
                       (JObj [(''status'', JStr ''missing''), (''interpretation'', itp)]),
                   missing := missing st @ [fst nm]\<rparr>)"
proof -
  obtain kvs where "snd nm = JObj kvs" using find_pred_dict [OF assms] by blast
  then show ?thesis using assms by (auto simp: process_module_def)
qed

lemma run_loop_all_missing:
  assumes "\<forall>nm \<in> set results. find_pred E sid (snd nm) = Inr None"
  shows "\<exists>st'. run_loop E sid st results = Inr st' \<and> weights st' = weights st \<and>
           probs st' = probs st \<and> missing st' = missing st @ map fst results"
  using assms
proof (induction results arbitrary: st)
  case Nil
  then show ?case by simp
next
  case (Cons nm rest)
  from Cons.prems have h: "find_pred E sid (snd nm) = Inr None" by simp
  obtain itp where p: "process_module E sid st nm =
           Inr (st\<lparr>acc_per_module := dict_set (acc_per_module st) (fst nm)
                       (JObj [(''status'', JStr ''missing''), (''interpretation'', itp)]),
                   missing := missing st @ [fst nm]\<rparr>)"
    using process_module_missing [OF h] by blast
  define st1 where "st1 = st\<lparr>acc_per_module := dict_set (acc_per_module st) (fst nm)
                       (JObj [(''status'', JStr ''missing''), (''interpretation'', itp)]),
                   missing := missing st @ [fst nm]\<rparr>"
  from Cons.prems have "\<forall>nm \<in> set rest. find_pred E sid (snd nm) = Inr None" by simp
  from Cons.IH [OF this, of st1] obtain st' where
    r: "run_loop E sid st1 rest = Inr st'" "weights st' = weights st1" "probs st' = probs st1"
       "missing st' = missing st1 @ map fst rest" by blast
  have "run_loop E sid st (nm # rest) = Inr st'" using p r(1) by (simp add: st1_def)
  moreover have "weights st1 = weights st" "probs st1 = probs st" "missing st1 = missing st @ [fst nm]"
    by (simp_all add: st1_def)
  ultimately show ?case using r by simp
qed

lemma entry_status_missing:
  "entry_status (JObj [(''status'', JStr ''missing''), (''interpretation'', i)]) = ''missing''"
  by (simp add: entry_status_def)

lemma entry_status_ok:
  "entry_status (JObj [(''status'', JStr ''ok''), (''probability'', p), (''label'', l)]) = ''ok''"
  by (simp add: entry_status_def)

lemma dict_set_fresh: "k \<notin> fst ` set kvs \<Longrightarrow> dict_set kvs k v = kvs @ [(k, v)]"
  by (induction kvs) auto

lemma process_module_step:
  assumes "process_module E sid st nm = Inr st'"
  shows "\<exists>e. acc_per_module st' = dict_set (acc_per_module st) (fst nm) e \<and>
           ((entry_status e = ''missing'' \<and> missing st' = missing st @ [fst nm] \<and>
             weights st' = weights st \<and> probs st' = probs st) \<or>
            (entry_status e = ''ok'' \<and> missing st' = missing st \<and>
             (\<exists>w p. weights st' = weights st @ [w] \<and> probs st' = probs st @ [p])))"
proof (cases "find_pred E sid (snd nm)")
  case (Inl e)
  then show ?thesis using assms by (simp add: process_module_def)
next
  case (Inr found)
  show ?thesis
  proof (cases found)
    case None
    then show ?thesis using assms Inr
      by (auto simp: process_module_def entry_status_missing split: sum.splits)
  next
    case (Some pred)
    then show ?thesis using assms Inr
      by (auto simp: process_module_def entry_status_ok split: sum.splits)
  qed
qed

lemma run_loop_entries:
  assumes "run_loop E sid st results = Inr st'"
    and "distinct (map fst (acc_per_module st) @ map fst results)"
  shows "\<exists>es. acc_per_module st' = acc_per_module st @ es \<and> map fst es = map fst results \<and>
           (\<forall>e \<in> snd ` set es. entry_status e = ''ok'' \<or> entry_status e = ''missing'') \<and>
           missing st' = missing st @ map fst (filter (\<lambda>ne. entry_status (snd ne) = ''missing'') es) \<and>
           length (weights st') + length (missing st') =
             length (weights st) + length (missing st) + length results \<and>
           length (probs st') + length (weights st) = length (weights st') + length (probs st)"
  using assms
proof (induction results arbitrary: st)
  case Nil
  then show ?case by simp
next
  case (Cons nm rest)
  from Cons.prems(1) obtain st1 where
    p: "process_module E sid st nm = Inr st1" and r: "run_loop E sid st1 rest = Inr st'"
    by (auto split: sum.splits)
  from Cons.prems(2) have fresh: "fst nm \<notin> fst ` set (acc_per_module st)" by auto
  from process_module_step [OF p] obtain e where
    e: "acc_per_module st1 = dict_set (acc_per_module st) (fst nm) e"
    and c: "(entry_status e = ''missing'' \<and> missing st1 = missing st @ [fst nm] \<and>
             weights st1 = weights st \<and> probs st1 = probs st) \<or>
            (entry_status e = ''ok'' \<and> missing st1 = missing st \<and>
             (\<exists>w p. weights st1 = weights st @ [w] \<and> probs st1 = probs st @ [p]))"
    by blast
  have a1: "acc_per_module st1 = acc_per_module st @ [(fst nm, e)]"
    using e dict_set_fresh [OF fresh] by simp
  have d1: "distinct (map fst (acc_per_module st1) @ map fst rest)"
    using Cons.prems(2) a1 by auto
  from Cons.IH [OF r d1] obtain es where
    i: "acc_per_module st' = acc_per_module st1 @ es" "map fst es = map fst rest"
       "\<forall>e \<in> snd ` set es. entry_status e = ''ok'' \<or> entry_status e = ''missing''"
       "missing st' = missing st1 @ map fst (filter (\<lambda>ne. entry_status (snd ne) = ''missing'') es)"
       "length (weights st') + length (missing st') =
             length (weights st1) + length (missing st1) + length rest"
       "length (probs st') + length (weights st1) = length (weights st') + length (probs st1)"
    by blast
  let ?es = "(fst nm, e) # es"
  have "acc_per_module st' = acc_per_module st @ ?es" using i(1) a1 by simp
  moreover have "map fst ?es = map fst (nm # rest)" using i(2) by simp
  moreover have "\<forall>e \<in> snd ` set ?es. entry_status e = ''ok'' \<or> entry_status e = ''missing''"
    using i(3) c by auto
  moreover have "missing st' = missing st @ map fst (filter (\<lambda>ne. entry_status (snd ne) = ''missing'') ?es)"
    using i(4) c by auto
  moreover have "length (weights st') + length (missing st') =
             length (weights st) + length (missing st) + length (nm # rest)"
    using i(5) c by auto
  moreover have "length (probs st') + length (weights st) = length (weights st') + length (probs st)"
    using i(5) i(6) c by auto
  ultimately show ?case by blast
qed


lemma derive_weight_spec:
  assumes "metrics_ok kvs"
  shows "derive_weight parse (JObj kvs) = spec_weight parse kvs"
proof (cases "present_truthy kvs ''auc''")
  case (Some v)
  then show ?thesis
    by (auto simp: derive_weight_def spec_weight_def weight_source_def present_truthy_def
        split: option.splits if_splits)
next
  case None
  note a = None
  show ?thesis
  proof (cases "present_truthy kvs ''accuracy''")
    case (Some v)
    then show ?thesis using a
      by (auto simp: derive_weight_def spec_weight_def weight_source_def present_truthy_def
          split: option.splits if_splits)
  next
    case None
    show ?thesis
    proof (cases "map_of kvs ''metrics''")
      case None
      then show ?thesis using a \<open>present_truthy kvs ''accuracy'' = None\<close>
        by (auto simp: derive_weight_def spec_weight_def weight_source_def present_truthy_def
            split: option.splits if_splits)
    next
      case (Some m)
      then show ?thesis using a \<open>present_truthy kvs ''accuracy'' = None\<close> assms
        by (cases m)
           (auto simp: derive_weight_def spec_weight_def weight_source_def present_truthy_def
              metrics_ok_def split: option.splits if_splits)
    qed
  qed
qed






lemma run_modules_entries:
  assumes "\<forall>name status fraction msg. call_hook h name status fraction msg = None"
    and "\<forall>nf \<in> set mods. snd nf data_root sim h \<noteq> Exited"
    and "distinct (map fst results @ map fst mods)"
  shows "\<exists>es. run_modules data_root sim h n i results mods = Inr (results @ es) \<and>
           map fst es = map fst mods \<and>
           (\<forall>nf \<in> set mods.
              (\<forall>e. snd nf data_root sim h = Raised e \<longrightarrow>
                 map_of es (fst nf) = Some (JObj [(''status'', JStr ''error''),
                    (''interpretation'', JStr (''Module raised exception: '' @ e))])) \<and>
              (\<forall>s. snd nf data_root sim h = Returned s \<longrightarrow> map_of es (fst nf) = Some (JObj s)))"
  using assms(2,3)
proof (induction mods arbitrary: results i)
  case Nil
  then show ?case by simp
next
  case (Cons nf rest)
  obtain name func where nf: "nf = (name, func)" by (cases nf)
  from Cons.prems(1) nf have ne: "func data_root sim h \<noteq> Exited" by simp
  then obtain summary where rm: "run_module data_root sim h func = Inr summary"
    and r1: "\<forall>e. func data_root sim h = Raised e \<longrightarrow>
               summary = [(''status'', JStr ''error''),
                          (''interpretation'', JStr (''Module raised exception: '' @ e))]"
    and r2: "\<forall>s. func data_root sim h = Returned s \<longrightarrow> summary = s"
    by (cases "func data_root sim h") (simp_all add: run_module_def)
  from Cons.prems(2) nf have fresh: "name \<notin> fst ` set results" by auto
  have ds: "dict_set results name (JObj summary) = results @ [(name, JObj summary)]"
    by (rule dict_set_fresh [OF fresh])
  have step: "run_modules data_root sim h n i results (nf # rest) =
                run_modules data_root sim h n (Suc i) (results @ [(name, JObj summary)]) rest"
    using assms(1) rm ds by (simp add: nf)
  have p1: "\<forall>nf \<in> set rest. snd nf data_root sim h \<noteq> Exited" using Cons.prems(1) by simp
  have p2: "distinct (map fst (results @ [(name, JObj summary)]) @ map fst rest)"
    using Cons.prems(2) nf by auto
  from Cons.IH [OF p1 p2, of "Suc i"] obtain es where
    e1: "run_modules data_root sim h n (Suc i) (results @ [(name, JObj summary)]) rest
           = Inr ((results @ [(name, JObj summary)]) @ es)"
    and e2: "map fst es = map fst rest"
    and e3: "\<forall>nf \<in> set rest.
              (\<forall>e. snd nf data_root sim h = Raised e \<longrightarrow>
                 map_of es (fst nf) = Some (JObj [(''status'', JStr ''error''),
                    (''interpretation'', JStr (''Module raised exception: '' @ e))])) \<and>
              (\<forall>s. snd nf data_root sim h = Returned s \<longrightarrow> map_of es (fst nf) = Some (JObj s))"
    by blast
  have nr: "\<forall>nf \<in> set rest. fst nf \<noteq> name" using Cons.prems(2) nf by auto
  let ?es = "(name, JObj summary) # es"
  have "run_modules data_root sim h n i results (nf # rest) = Inr (results @ ?es)"
    using step e1 by simp
  moreover have "map fst ?es = map fst (nf # rest)" using e2 nf by simp
  moreover have "\<forall>nf' \<in> set (nf # rest).
              (\<forall>e. snd nf' data_root sim h = Raised e \<longrightarrow>
                 map_of ?es (fst nf') = Some (JObj [(''status'', JStr ''error''),
                    (''interpretation'', JStr (''Module raised exception: '' @ e))])) \<and>
              (\<forall>s. snd nf' data_root sim h = Returned s \<longrightarrow> map_of ?es (fst nf') = Some (JObj s))"
    using e3 nr r1 r2 nf by auto
  ultimately show ?case by blast
qed

lemma scan_rows_skip:
  assumes "\<forall>it \<in> set before. \<exists>r'. it = Row r' \<and> cell (map_of r' ''subject_id'') JNull \<noteq> JStr sid"
  shows "scan_rows parse sid (before @ rest) = scan_rows parse sid rest"
  using assms by (induction before) auto


section \<open>Facts about the rounding\<close>






























section \<open>Facts about the contributions and the sums\<close>





lemma ok_probabilities_append:
  "ok_probabilities (es @ fs) = ok_probabilities es @ ok_probabilities fs"
  by (simp add: ok_probabilities_def)








text \<open>The definitions that a run on a concrete input unfolds.\<close>

lemmas eval_defs = predict_subject_def process_module_def find_pred_def find_inline_def find_csv_def
  sample_env_def sample_pred_def derive_weight_def combine_def init_state_def py_sum_def
  sum_plain_def sum_compensated_def
  fl_def round_lo.simps round_hi.simps rhe_def entry_status_def Let_def

section \<open>The claims\<close>

text \<open>
  Claim C2, as amended.  When the lookup finds no prediction of the queried subject in any
  modality (the all-missing case) and the report of the subject can be written,
  \<^verbatim>\<open>predict_subject\<close> returns a report instead of raising; its ensemble has no available
  module, lists every modality as missing, has the probability \<^verbatim>\<open>None\<close> and the label
  \<^verbatim>\<open>unknown\<close>, and the final label is \<^verbatim>\<open>unknown\<close>.
\<close>

theorem all_missing_unknown:
  assumes "\<forall>nm \<in> set results. find_pred E sid (snd nm) = Inr None"
    and "report_writable E sid"
  shows "\<exists>rep. predict_subject E sid results threshold = Inr rep \<and>
           ensemble rep = JObj [(''available_modules'', JNum 0),
                                (''missing_modules'', JArr (map JStr (map fst results))),
                                (''probability'', JNull),
                                (''label'', JStr ''unknown'')] \<and>
           final_label rep = ''unknown''"
proof -
  obtain st' where s: "run_loop E sid init_state results = Inr st'" "weights st' = []"
      "missing st' = map fst results"
    using run_loop_all_missing [OF assms(1), of init_state] by (auto simp: init_state_def)
  then show ?thesis using assms(2) by (simp add: predict_subject_def combine_def)
qed

theorem all_missing_unknown_witness:
  "find_pred sample_env ''SUBJ999''
     (JObj [(''status'', JStr ''error''), (''interpretation'', JStr ''folder not found'')]) = Inr None \<and>
   find_pred sample_env ''SUBJ999''
     (JObj [(''status'', JStr ''success''), (''auc'', JNum (77 / 100)),
            (''predictions'', JArr [sample_pred ''SUBJ001'' ''AD'' (9 / 10)])]) = Inr None \<and>
   report_writable sample_env ''SUBJ999'' \<and>
   (\<exists>rep. predict_subject sample_env ''SUBJ999''
            [(''mri_pet'', JObj [(''status'', JStr ''error''), (''interpretation'', JStr ''folder not found'')]),
             (''eeg'', JObj [(''status'', JStr ''success''), (''auc'', JNum (77 / 100)),
                             (''predictions'', JArr [sample_pred ''SUBJ001'' ''AD'' (9 / 10)])])]
            (1 / 2) = Inr rep \<and>
          ensemble rep = JObj [(''available_modules'', JNum 0),
                               (''missing_modules'', JArr [JStr ''mri_pet'', JStr ''eeg'']),
                               (''probability'', JNull),
                               (''label'', JStr ''unknown'')] \<and>
          final_label rep = ''unknown'')"
  using all_missing_unknown [of
      "[(''mri_pet'', JObj [(''status'', JStr ''error''), (''interpretation'', JStr ''folder not found'')]),
        (''eeg'', JObj [(''status'', JStr ''success''), (''auc'', JNum (77 / 100)),
                        (''predictions'', JArr [sample_pred ''SUBJ001'' ''AD'' (9 / 10)])])]"
      sample_env "''SUBJ999''" "1 / 2"]
  by (simp add: find_pred_def find_inline_def sample_env_def sample_pred_def)

text \<open>
  Claim C2 as the specification words it, for every call, fails: the report is written after
  the combination and outside any \<^verbatim>\<open>try\<close> (lines 131 to 142).  For the subject id \<^verbatim>\<open>a/b\<close> and
  one modality that ended in an error, the lookup finds no prediction, so this is the
  all-missing case, and the call raises instead of returning the \<^verbatim>\<open>unknown\<close> report.
\<close>

theorem all_missing_unwritable_raises:
  "find_pred flat_outputs_env ''a/b''
     (JObj [(''status'', JStr ''error''), (''interpretation'', JStr ''folder not found'')]) = Inr None \<and>
   predict_subject flat_outputs_env ''a/b''
     [(''mri_pet'', JObj [(''status'', JStr ''error''), (''interpretation'', JStr ''folder not found'')])]
     (1 / 2) = Inl OSError"
  by (simp add: eval_defs flat_outputs_env_def)

text \<open>
  Claim C3.  Whenever \<^verbatim>\<open>predict_subject\<close> returns an ensemble probability (so at least one
  modality contributed) that equals the threshold exactly, the ensemble label and the final
  label are \<^verbatim>\<open>AD\<close>: the comparison is \<open>\<ge>\<close>.
\<close>

theorem threshold_boundary_is_AD:
  assumes "predict_subject E sid results threshold = Inr rep"
    and "py_get (ensemble rep) ''probability'' JNull = Inr (JNum threshold)"
  shows "py_get (ensemble rep) ''label'' JNull = Inr (JStr ''AD'') \<and> final_label rep = ''AD''"
  using assms
  by (auto simp: predict_subject_def combine_def Let_def split: sum.splits if_splits)

theorem threshold_boundary_is_AD_witness:
  "predict_subject sample_env ''SUBJ001''
     [(''eeg'', JObj [(''predictions'', JArr [sample_pred ''SUBJ001'' ''CN'' (1 / 4)])]),
      (''adni'', JObj [(''predictions'', JArr [sample_pred ''SUBJ001'' ''AD'' (3 / 4)])])] (1 / 2)
   = Inr \<lparr>subject_id = ''SUBJ001'',
           per_module = [(''eeg'', JObj [(''status'', JStr ''ok''), (''probability'', JNum (1 / 4)),
                                         (''label'', JStr ''CN'')]),
                         (''adni'', JObj [(''status'', JStr ''ok''), (''probability'', JNum (3 / 4)),
                                          (''label'', JStr ''AD'')])],
           ensemble = JObj [(''available_modules'', JNum 2), (''missing_modules'', JArr []),
                            (''probability'', JNum (1 / 2)), (''label'', JStr ''AD'')],
           final_label = ''AD''\<rparr> \<and>
   py_get (JObj [(''available_modules'', JNum 2), (''missing_modules'', JArr []),
                 (''probability'', JNum (1 / 2)), (''label'', JStr ''AD'')]) ''label'' JNull
     = Inr (JStr ''AD'')"
proof -
  have run: "predict_subject sample_env ''SUBJ001''
     [(''eeg'', JObj [(''predictions'', JArr [sample_pred ''SUBJ001'' ''CN'' (1 / 4)])]),
      (''adni'', JObj [(''predictions'', JArr [sample_pred ''SUBJ001'' ''AD'' (3 / 4)])])] (1 / 2)
   = Inr \<lparr>subject_id = ''SUBJ001'',
           per_module = [(''eeg'', JObj [(''status'', JStr ''ok''), (''probability'', JNum (1 / 4)),
                                         (''label'', JStr ''CN'')]),
                         (''adni'', JObj [(''status'', JStr ''ok''), (''probability'', JNum (3 / 4)),
                                          (''label'', JStr ''AD'')])],
           ensemble = JObj [(''available_modules'', JNum 2), (''missing_modules'', JArr []),
                            (''probability'', JNum (1 / 2)), (''label'', JStr ''AD'')],
           final_label = ''AD''\<rparr>"
    by (simp add: eval_defs)
  from threshold_boundary_is_AD [OF run] show ?thesis using run by simp
qed

text \<open>
  Claim C10.  Whenever \<^verbatim>\<open>predict_subject\<close> returns, on a results mapping (a dict, so its
  keys are distinct): \<^verbatim>\<open>per_module\<close> has the modality names of the input, each once and in
  the input's order, every entry with status \<^verbatim>\<open>ok\<close> or \<^verbatim>\<open>missing\<close>; the count
  \<^verbatim>\<open>available_modules\<close> plus the length of \<^verbatim>\<open>missing_modules\<close> is the number of modalities;
  and \<^verbatim>\<open>missing_modules\<close> lists exactly the modalities whose entry has status \<^verbatim>\<open>missing\<close>.
\<close>

theorem per_module_accounting:
  assumes "predict_subject E sid results threshold = Inr rep"
    and "distinct (map fst results)"
  shows "map fst (per_module rep) = map fst results \<and>
         (\<forall>e \<in> snd ` set (per_module rep). entry_status e = ''ok'' \<or> entry_status e = ''missing'') \<and>
         (\<exists>k ms. py_get (ensemble rep) ''available_modules'' JNull = Inr (JNum (real k)) \<and>
                  py_get (ensemble rep) ''missing_modules'' JNull = Inr (JArr (map JStr ms)) \<and>
                  k + length ms = length results \<and>
                  ms = map fst (filter (\<lambda>ne. entry_status (snd ne) = ''missing'') (per_module rep)))"
proof -
  from assms(1) obtain st where
    l: "run_loop E sid init_state results = Inr st" and c: "combine E sid threshold st = Inr rep"
    by (auto simp: predict_subject_def split: sum.splits if_splits)
  have d: "distinct (map fst (acc_per_module init_state) @ map fst results)"
    using assms(2) by (simp add: init_state_def)
  from run_loop_entries [OF l d] obtain es where
    e: "acc_per_module st = es" "map fst es = map fst results"
       "\<forall>e \<in> snd ` set es. entry_status e = ''ok'' \<or> entry_status e = ''missing''"
       "missing st = map fst (filter (\<lambda>ne. entry_status (snd ne) = ''missing'') es)"
       "length (weights st) + length (missing st) = length results"
    by (auto simp: init_state_def)
  have p: "per_module rep = acc_per_module st"
    using c by (auto simp: combine_def Let_def split: if_splits)
  have a: "py_get (ensemble rep) ''available_modules'' JNull = Inr (JNum (real (length (weights st))))"
    using c by (auto simp: combine_def Let_def split: if_splits)
  have m: "py_get (ensemble rep) ''missing_modules'' JNull = Inr (JArr (map JStr (missing st)))"
    using c by (auto simp: combine_def Let_def split: if_splits)
  show ?thesis
  proof (intro conjI exI)
    show "map fst (per_module rep) = map fst results" using p e by simp
    show "\<forall>e \<in> snd ` set (per_module rep). entry_status e = ''ok'' \<or> entry_status e = ''missing''"
      using p e by simp
    show "py_get (ensemble rep) ''available_modules'' JNull = Inr (JNum (real (length (weights st))))"
      by (rule a)
    show "py_get (ensemble rep) ''missing_modules'' JNull = Inr (JArr (map JStr (missing st)))"
      by (rule m)
    show "length (weights st) + length (missing st) = length results" using e by simp
    show "missing st = map fst (filter (\<lambda>ne. entry_status (snd ne) = ''missing'') (per_module rep))"
      using p e by simp
  qed
qed

theorem per_module_accounting_witness:
  "predict_subject sample_env ''SUBJ001''
     [(''mri_pet'', JObj [(''status'', JStr ''error''), (''interpretation'', JStr ''folder not found'')]),
      (''eeg'', JObj [(''predictions'', JArr [sample_pred ''SUBJ001'' ''CN'' (1 / 4)])]),
      (''adni'', JObj [(''predictions'', JArr [sample_pred ''SUBJ001'' ''AD'' (3 / 4)])])] (1 / 2)
   = Inr \<lparr>subject_id = ''SUBJ001'',
           per_module = [(''mri_pet'', JObj [(''status'', JStr ''missing''),
                                             (''interpretation'', JStr ''folder not found'')]),
                         (''eeg'', JObj [(''status'', JStr ''ok''), (''probability'', JNum (1 / 4)),
                                         (''label'', JStr ''CN'')]),
                         (''adni'', JObj [(''status'', JStr ''ok''), (''probability'', JNum (3 / 4)),
                                          (''label'', JStr ''AD'')])],
           ensemble = JObj [(''available_modules'', JNum 2), (''missing_modules'', JArr [JStr ''mri_pet'']),
                            (''probability'', JNum (1 / 2)), (''label'', JStr ''AD'')],
           final_label = ''AD''\<rparr> \<and>
   distinct (map fst [(''mri_pet'', JObj [(''status'', JStr ''error''), (''interpretation'', JStr ''folder not found'')]),
      (''eeg'', JObj [(''predictions'', JArr [sample_pred ''SUBJ001'' ''CN'' (1 / 4)])]),
      (''adni'', JObj [(''predictions'', JArr [sample_pred ''SUBJ001'' ''AD'' (3 / 4)])])]) \<and>
   map fst (per_module \<lparr>subject_id = ''SUBJ001'',
           per_module = [(''mri_pet'', JObj [(''status'', JStr ''missing''),
                                             (''interpretation'', JStr ''folder not found'')]),
                         (''eeg'', JObj [(''status'', JStr ''ok''), (''probability'', JNum (1 / 4)),
                                         (''label'', JStr ''CN'')]),
                         (''adni'', JObj [(''status'', JStr ''ok''), (''probability'', JNum (3 / 4)),
                                          (''label'', JStr ''AD'')])],
           ensemble = JObj [(''available_modules'', JNum 2), (''missing_modules'', JArr [JStr ''mri_pet'']),
                            (''probability'', JNum (1 / 2)), (''label'', JStr ''AD'')],
           final_label = ''AD''\<rparr>) = [''mri_pet'', ''eeg'', ''adni''] \<and>
   map (\<lambda>ne. entry_status (snd ne)) (per_module \<lparr>subject_id = ''SUBJ001'',
           per_module = [(''mri_pet'', JObj [(''status'', JStr ''missing''),
                                             (''interpretation'', JStr ''folder not found'')]),
                         (''eeg'', JObj [(''status'', JStr ''ok''), (''probability'', JNum (1 / 4)),
                                         (''label'', JStr ''CN'')]),
                         (''adni'', JObj [(''status'', JStr ''ok''), (''probability'', JNum (3 / 4)),
                                          (''label'', JStr ''AD'')])],
           ensemble = JObj [(''available_modules'', JNum 2), (''missing_modules'', JArr [JStr ''mri_pet'']),
                            (''probability'', JNum (1 / 2)), (''label'', JStr ''AD'')],
           final_label = ''AD''\<rparr>) = [''missing'', ''ok'', ''ok''] \<and>
   (\<exists>k ms. py_get (ensemble \<lparr>subject_id = ''SUBJ001'',
           per_module = [(''mri_pet'', JObj [(''status'', JStr ''missing''),
                                             (''interpretation'', JStr ''folder not found'')]),
                         (''eeg'', JObj [(''status'', JStr ''ok''), (''probability'', JNum (1 / 4)),
                                         (''label'', JStr ''CN'')]),
                         (''adni'', JObj [(''status'', JStr ''ok''), (''probability'', JNum (3 / 4)),
                                          (''label'', JStr ''AD'')])],
           ensemble = JObj [(''available_modules'', JNum 2), (''missing_modules'', JArr [JStr ''mri_pet'']),
                            (''probability'', JNum (1 / 2)), (''label'', JStr ''AD'')],
           final_label = ''AD''\<rparr>) ''available_modules'' JNull = Inr (JNum (real k)) \<and>
            py_get (ensemble \<lparr>subject_id = ''SUBJ001'',
           per_module = [(''mri_pet'', JObj [(''status'', JStr ''missing''),
                                             (''interpretation'', JStr ''folder not found'')]),
                         (''eeg'', JObj [(''status'', JStr ''ok''), (''probability'', JNum (1 / 4)),
                                         (''label'', JStr ''CN'')]),
                         (''adni'', JObj [(''status'', JStr ''ok''), (''probability'', JNum (3 / 4)),
                                          (''label'', JStr ''AD'')])],
           ensemble = JObj [(''available_modules'', JNum 2), (''missing_modules'', JArr [JStr ''mri_pet'']),
                            (''probability'', JNum (1 / 2)), (''label'', JStr ''AD'')],
           final_label = ''AD''\<rparr>) ''missing_modules'' JNull = Inr (JArr (map JStr ms)) \<and>
            k + length ms = length [(''mri_pet'', JObj [(''status'', JStr ''error''), (''interpretation'', JStr ''folder not found'')]),
      (''eeg'', JObj [(''predictions'', JArr [sample_pred ''SUBJ001'' ''CN'' (1 / 4)])]),
      (''adni'', JObj [(''predictions'', JArr [sample_pred ''SUBJ001'' ''AD'' (3 / 4)])])] \<and>
            ms = map fst (filter (\<lambda>ne. entry_status (snd ne) = ''missing'') (per_module \<lparr>subject_id = ''SUBJ001'',
           per_module = [(''mri_pet'', JObj [(''status'', JStr ''missing''),
                                             (''interpretation'', JStr ''folder not found'')]),
                         (''eeg'', JObj [(''status'', JStr ''ok''), (''probability'', JNum (1 / 4)),
                                         (''label'', JStr ''CN'')]),
                         (''adni'', JObj [(''status'', JStr ''ok''), (''probability'', JNum (3 / 4)),
                                          (''label'', JStr ''AD'')])],
           ensemble = JObj [(''available_modules'', JNum 2), (''missing_modules'', JArr [JStr ''mri_pet'']),
                            (''probability'', JNum (1 / 2)), (''label'', JStr ''AD'')],
           final_label = ''AD''\<rparr>)))"
proof -
  let ?R = "[(''mri_pet'', JObj [(''status'', JStr ''error''), (''interpretation'', JStr ''folder not found'')]),
      (''eeg'', JObj [(''predictions'', JArr [sample_pred ''SUBJ001'' ''CN'' (1 / 4)])]),
      (''adni'', JObj [(''predictions'', JArr [sample_pred ''SUBJ001'' ''AD'' (3 / 4)])])]"
  let ?r = "\<lparr>subject_id = ''SUBJ001'',
           per_module = [(''mri_pet'', JObj [(''status'', JStr ''missing''),
                                             (''interpretation'', JStr ''folder not found'')]),
                         (''eeg'', JObj [(''status'', JStr ''ok''), (''probability'', JNum (1 / 4)),
                                         (''label'', JStr ''CN'')]),
                         (''adni'', JObj [(''status'', JStr ''ok''), (''probability'', JNum (3 / 4)),
                                          (''label'', JStr ''AD'')])],
           ensemble = JObj [(''available_modules'', JNum 2), (''missing_modules'', JArr [JStr ''mri_pet'']),
                            (''probability'', JNum (1 / 2)), (''label'', JStr ''AD'')],
           final_label = ''AD''\<rparr>"
  have run: "predict_subject sample_env ''SUBJ001'' ?R (1 / 2) = Inr ?r"
    by (simp add: eval_defs)
  have d: "distinct (map fst ?R)" by simp
  note t = per_module_accounting [OF run d]
  have c1: "map fst (per_module ?r) = map fst ?R" using t by (rule conjunct1)
  have c3: "\<exists>k ms. py_get (ensemble ?r) ''available_modules'' JNull = Inr (JNum (real k)) \<and>
            py_get (ensemble ?r) ''missing_modules'' JNull = Inr (JArr (map JStr ms)) \<and>
            k + length ms = length ?R \<and>
            ms = map fst (filter (\<lambda>ne. entry_status (snd ne) = ''missing'') (per_module ?r))"
    using t by (elim conjE)
  have c2: "map (\<lambda>ne. entry_status (snd ne)) (per_module ?r) = [''missing'', ''ok'', ''ok'']"
    by (simp add: entry_status_def)
  have c1': "map fst (per_module ?r) = [''mri_pet'', ''eeg'', ''adni'']" using c1 by simp
  show ?thesis
    apply (intro conjI)
        apply (rule run)
       apply (rule d)
      apply (rule c1')
     apply (rule c2)
    apply (rule c3)
    done
qed

text \<open>
  Claim C1.  For a modality whose summary has a \<^verbatim>\<open>metrics\<close> entry of the data model (absent,
  empty or a mapping) and whose prediction of the subject is found with a probability that
  \<^verbatim>\<open>float\<close> accepts, the round of the loop uses the weight of the fallback chain: when the
  conversion of the chosen metric raises, the round raises the same exception, and otherwise the
  round appends that weight to \<^verbatim>\<open>weights\<close> and the probability times that weight to
  \<^verbatim>\<open>probs\<close>.  In particular, with \<^verbatim>\<open>auc\<close> equal to 0 and \<^verbatim>\<open>accuracy\<close> equal to 0.7 the
  weight is the float 0.7.
\<close>

theorem weight_fallback_chain:
  assumes "metrics_ok kvs"
    and "find_pred E sid (JObj kvs) = Inr (Some pred)"
    and "py_get pred ''probability'' (JNum 0) = Inr pv"
    and "py_float (str_to_float E) pv = Inr prob"
  shows "(case spec_weight (str_to_float E) kvs of
            Inl e \<Rightarrow> process_module E sid st (name, JObj kvs) = Inl e
          | Inr w \<Rightarrow> \<exists>st'. process_module E sid st (name, JObj kvs) = Inr st' \<and>
                        weights st' = weights st @ [w] \<and> probs st' = probs st @ [fl (prob * w)]) \<and>
         (map_of kvs ''auc'' = Some (JNum 0) \<and> map_of kvs ''accuracy'' = Some (JNum (7 / 10)) \<longrightarrow>
            (\<exists>st'. process_module E sid st (name, JObj kvs) = Inr st' \<and>
                   weights st' = weights st @ [fl (7 / 10)]))"
proof -
  obtain pk where pk: "pred = JObj pk" using assms(3) by (cases pred) simp_all
  have dw: "derive_weight (str_to_float E) (JObj kvs) = spec_weight (str_to_float E) kvs"
    by (rule derive_weight_spec [OF assms(1)])
  have first: "case spec_weight (str_to_float E) kvs of
            Inl e \<Rightarrow> process_module E sid st (name, JObj kvs) = Inl e
          | Inr w \<Rightarrow> \<exists>st'. process_module E sid st (name, JObj kvs) = Inr st' \<and>
                        weights st' = weights st @ [w] \<and> probs st' = probs st @ [fl (prob * w)]"
    using assms(2,3,4) pk dw by (simp add: process_module_def split: sum.splits)
  have sc: "spec_weight (str_to_float E) kvs = Inr (fl (7 / 10))"
    if "map_of kvs ''auc'' = Some (JNum 0)" "map_of kvs ''accuracy'' = Some (JNum (7 / 10))"
    using that by (simp add: spec_weight_def weight_source_def present_truthy_def)
  show ?thesis
  proof (intro conjI impI)
    show "case spec_weight (str_to_float E) kvs of
            Inl e \<Rightarrow> process_module E sid st (name, JObj kvs) = Inl e
          | Inr w \<Rightarrow> \<exists>st'. process_module E sid st (name, JObj kvs) = Inr st' \<and>
                        weights st' = weights st @ [w] \<and> probs st' = probs st @ [fl (prob * w)]"
      by (rule first)
  next
    assume h: "map_of kvs ''auc'' = Some (JNum 0) \<and> map_of kvs ''accuracy'' = Some (JNum (7 / 10))"
    then have "spec_weight (str_to_float E) kvs = Inr (fl (7 / 10))" using sc by blast
    then show "\<exists>st'. process_module E sid st (name, JObj kvs) = Inr st' \<and>
                   weights st' = weights st @ [fl (7 / 10)]"
      using first by auto
  qed
qed

theorem weight_fallback_chain_witness:
  "metrics_ok [(''auc'', JNum 0), (''accuracy'', JNum (7 / 10)),
               (''predictions'', JArr [sample_pred ''SUBJ001'' ''AD'' (3 / 4)])] \<and>
   find_pred sample_env ''SUBJ001''
     (JObj [(''auc'', JNum 0), (''accuracy'', JNum (7 / 10)),
            (''predictions'', JArr [sample_pred ''SUBJ001'' ''AD'' (3 / 4)])])
     = Inr (Some (sample_pred ''SUBJ001'' ''AD'' (3 / 4))) \<and>
   py_get (sample_pred ''SUBJ001'' ''AD'' (3 / 4)) ''probability'' (JNum 0) = Inr (JNum (3 / 4)) \<and>
   py_float (str_to_float sample_env) (JNum (3 / 4)) = Inr (3 / 4) \<and>
   (\<exists>st'. process_module sample_env ''SUBJ001'' init_state
            (''eeg'', JObj [(''auc'', JNum 0), (''accuracy'', JNum (7 / 10)),
                            (''predictions'', JArr [sample_pred ''SUBJ001'' ''AD'' (3 / 4)])]) = Inr st' \<and>
          weights st' = weights init_state @ [fl (7 / 10)]) \<and>
   fl (7 / 10) = 3152519739159347 / 4503599627370496"
proof -
  let ?kvs = "[(''auc'', JNum 0), (''accuracy'', JNum (7 / 10)),
               (''predictions'', JArr [sample_pred ''SUBJ001'' ''AD'' (3 / 4)])]"
  have h1: "metrics_ok ?kvs" by (simp add: metrics_ok_def)
  have h2: "find_pred sample_env ''SUBJ001'' (JObj ?kvs) = Inr (Some (sample_pred ''SUBJ001'' ''AD'' (3 / 4)))"
    by (simp add: find_pred_def find_inline_def sample_pred_def)
  have h3: "py_get (sample_pred ''SUBJ001'' ''AD'' (3 / 4)) ''probability'' (JNum 0) = Inr (JNum (3 / 4))"
    by (simp add: sample_pred_def)
  have h4: "py_float (str_to_float sample_env) (JNum (3 / 4)) = Inr (3 / 4)"
    by (simp add: fl_def round_lo.simps rhe_def)
  have a: "map_of ?kvs ''auc'' = Some (JNum 0) \<and> map_of ?kvs ''accuracy'' = Some (JNum (7 / 10))"
    by simp
  note t = weight_fallback_chain [OF h1 h2 h3 h4, of init_state "''eeg''"]
  have c: "\<exists>st'. process_module sample_env ''SUBJ001'' init_state (''eeg'', JObj ?kvs) = Inr st' \<and>
          weights st' = weights init_state @ [fl (7 / 10)]"
    by (rule t [THEN conjunct2, THEN mp, OF a])
  have v: "fl (7 / 10) = 3152519739159347 / 4503599627370496"
    by (simp add: fl_def round_lo.simps rhe_def)
  show ?thesis
    apply (intro conjI)
         apply (rule h1)
        apply (rule h2)
       apply (rule h3)
      apply (rule h4)
     apply (rule c)
    apply (rule v)
    done
qed



text \<open>
  Claim C8, as amended.  When no call of the progress hook raises, no runner ends with an
  exception outside \<^verbatim>\<open>Exception\<close>, and the aggregate file can be written,
  \<^verbatim>\<open>run_all_analyses\<close> returns a mapping with an entry for each of the five modules, in the
  fixed order: for a runner that raised, the entry with status \<^verbatim>\<open>error\<close> and the message of
  the exception; for a runner that returned, its summary.  So a runner that raises an
  \<^verbatim>\<open>Exception\<close> is caught and the loop goes on to the remaining modules.
\<close>

theorem module_exceptions_caught:
  assumes "\<forall>name status fraction msg. call_hook h name status fraction msg = None"
    and "\<forall>nf \<in> set (modules R). snd nf data_root sim h \<noteq> Exited"
    and "writable"
  shows "\<exists>results. run_all_analyses R writable data_root sim h = Inr results \<and>
           map fst results = [''mri_pet'', ''eeg'', ''adni'', ''tadpole'', ''proteomics''] \<and>
           (\<forall>nf \<in> set (modules R).
              (\<forall>e. snd nf data_root sim h = Raised e \<longrightarrow>
                 map_of results (fst nf) = Some (JObj [(''status'', JStr ''error''),
                    (''interpretation'', JStr (''Module raised exception: '' @ e))])) \<and>
              (\<forall>s. snd nf data_root sim h = Returned s \<longrightarrow>
                 map_of results (fst nf) = Some (JObj s)))"
proof -
  have d: "distinct (map fst ([] :: (string \<times> json) list) @ map fst (modules R))"
    by (simp add: modules_def)
  from run_modules_entries [OF assms(1,2) d, of "length (modules R)" 1] obtain es where
    e1: "run_modules data_root sim h (length (modules R)) 1 [] (modules R) = Inr ([] @ es)"
    and e2: "map fst es = map fst (modules R)"
    and e3: "\<forall>nf \<in> set (modules R).
              (\<forall>e. snd nf data_root sim h = Raised e \<longrightarrow>
                 map_of es (fst nf) = Some (JObj [(''status'', JStr ''error''),
                    (''interpretation'', JStr (''Module raised exception: '' @ e))])) \<and>
              (\<forall>s. snd nf data_root sim h = Returned s \<longrightarrow> map_of es (fst nf) = Some (JObj s))"
    by blast
  have "run_all_analyses R writable data_root sim h = Inr es"
    using e1 assms(3) by (simp add: run_all_analyses_def)
  moreover have "map fst es = [''mri_pet'', ''eeg'', ''adni'', ''tadpole'', ''proteomics'']"
    using e2 by (simp add: modules_def)
  ultimately show ?thesis using e3 by (intro exI [of _ es] conjI)
qed

theorem module_exceptions_caught_witness:
  "call_hook None ''eeg'' (JStr ''queued'') 0 (JStr ''About to run eeg'') = None \<and>
   run_eeg sample_runners ''data'' True None = Raised ''cannot read Feature'' \<and>
   (\<exists>results. run_all_analyses sample_runners True ''data'' True None = Inr results \<and>
      map fst results = [''mri_pet'', ''eeg'', ''adni'', ''tadpole'', ''proteomics''] \<and>
      map_of results ''eeg'' = Some (JObj [(''status'', JStr ''error''),
         (''interpretation'', JStr ''Module raised exception: cannot read Feature'')]) \<and>
      map_of results ''mri_pet'' = Some (JObj [(''status'', JStr ''success''), (''auc'', JNum (9 / 10))]))"
proof -
  have h1: "\<forall>name status fraction msg. call_hook None name status fraction msg = None"
    by (simp add: call_hook_def)
  have h2: "\<forall>nf \<in> set (modules sample_runners). snd nf ''data'' True None \<noteq> Exited"
    by (simp add: modules_def sample_runners_def)
  have h3: "True" by simp
  from module_exceptions_caught [OF h1 h2 h3] obtain results where
    r: "run_all_analyses sample_runners True ''data'' True None = Inr results \<and>
        map fst results = [''mri_pet'', ''eeg'', ''adni'', ''tadpole'', ''proteomics''] \<and>
        (\<forall>nf \<in> set (modules sample_runners).
              (\<forall>e. snd nf ''data'' True None = Raised e \<longrightarrow>
                 map_of results (fst nf) = Some (JObj [(''status'', JStr ''error''),
                    (''interpretation'', JStr (''Module raised exception: '' @ e))])) \<and>
              (\<forall>s. snd nf ''data'' True None = Returned s \<longrightarrow>
                 map_of results (fst nf) = Some (JObj s)))" ..
  note r1 = r [THEN conjunct1]
  note r2 = r [THEN conjunct2, THEN conjunct1]
  note r3 = r [THEN conjunct2, THEN conjunct2]
  have m1: "(''eeg'', run_eeg sample_runners) \<in> set (modules sample_runners)"
    by (simp add: modules_def)
  have m2: "(''mri_pet'', run_mri_pet sample_runners) \<in> set (modules sample_runners)"
    by (simp add: modules_def)
  have g: "run_eeg sample_runners ''data'' True None = Raised ''cannot read Feature''"
    by (simp add: sample_runners_def)
  have g2: "run_mri_pet sample_runners ''data'' True None
              = Returned [(''status'', JStr ''success''), (''auc'', JNum (9 / 10))]"
    by (simp add: sample_runners_def)
  have c1: "map_of results ''eeg'' = Some (JObj [(''status'', JStr ''error''),
         (''interpretation'', JStr ''Module raised exception: cannot read Feature'')])"
    using r3 [rule_format, OF m1, THEN conjunct1, rule_format, of "''cannot read Feature''"] g
    by simp
  have c2: "map_of results ''mri_pet'' = Some (JObj [(''status'', JStr ''success''), (''auc'', JNum (9 / 10))])"
    using r3 [rule_format, OF m2, THEN conjunct2, rule_format, OF _] g2 by simp
  have k: "call_hook None ''eeg'' (JStr ''queued'') 0 (JStr ''About to run eeg'') = None"
    by (simp add: call_hook_def)
  show ?thesis
    apply (intro conjI)
      apply (rule k)
     apply (rule g)
    apply (rule exI [of _ results])
    apply (intro conjI)
       apply (rule r1)
      apply (rule r2)
     apply (rule c1)
    apply (rule c2)
    done
qed

text \<open>
  Claim C8 as the specification words it, for any exception of a runner, fails: the handler is
  \<^verbatim>\<open>except Exception\<close>.  When the EEG runner ends with \<^verbatim>\<open>SystemExit\<close>, the call of
  \<^verbatim>\<open>run_all_analyses\<close> ends with it too: nothing is recorded for the module, the remaining
  three modules are not run and no mapping is returned.
\<close>

theorem system_exit_aborts_batch:
  "run_eeg exiting_runners ''data'' True None = Exited \<and>
   run_all_analyses exiting_runners True ''data'' True None = Inl SystemExit"
  by (simp add: run_all_analyses_def modules_def exiting_runners_def sample_runners_def
      run_module_def call_hook_def dict_get_def)

text \<open>
  Claim C7.  The claim fails on the simulation path.  For the draw 0.49996413786793276 (the
  5145th draw of \<^verbatim>\<open>random.gauss(0.77, 0.15)\<close> after \<^verbatim>\<open>random.seed(43)\<close>, as in
  \<^verbatim>\<open>run_eeg\<close>) the label is taken from the unrounded probability, below 0.5, and the stored
  probability is the rounded one, 0.5: the prediction has the label \<^verbatim>\<open>CN\<close> with a stored
  probability that is not below 0.5.
\<close>

theorem simulated_label_disagrees_with_stored_probability:
  "simulated_prediction ''S5145'' (9006553220002533 / 18014398509481984) =
     JObj [(''subject_id'', JStr ''S5145''), (''predicted_label'', JStr ''CN''),
           (''probability'', JNum (1 / 2))]"
  by (simp add: simulated_prediction_def clamp_prob_def py_round3_def fl_def round_lo.simps
      rhe_def Let_def)

text \<open>
  Claim C5, as amended.  When the prediction of the subject comes from the predictions file of
  a modality (no inline prediction of the subject, the row of the subject is the first row with
  its id and the rows before it are read without a fault) and \<^verbatim>\<open>float\<close> rejects the
  probability of that row, the lookup ends without a prediction, the modality is recorded with
  status \<^verbatim>\<open>missing\<close>, its name is added to the missing ones, and the loop goes on with the
  remaining modalities.
\<close>

theorem unparseable_file_probability_is_missing:
  assumes "find_inline sid (JObj kvs) = Inr None"
    and "py_get (JObj kvs) ''predictions_path'' JNull = Inr path"
    and "truthy path"
    and "read_csv E path = Some (before @ Row r # after)"
    and "\<forall>it \<in> set before. \<exists>r'. it = Row r' \<and> cell (map_of r' ''subject_id'') JNull \<noteq> JStr sid"
    and "cell (map_of r ''subject_id'') JNull = JStr sid"
    and "py_float (str_to_float E) (cell (map_of r ''probability'') (JNum 0)) = Inl e"
  shows "find_pred E sid (JObj kvs) = Inr None \<and>
         (\<exists>itp. run_loop E sid st ((name, JObj kvs) # rest) =
            run_loop E sid
              (st\<lparr>acc_per_module := dict_set (acc_per_module st) name
                      (JObj [(''status'', JStr ''missing''), (''interpretation'', itp)]),
                  missing := missing st @ [name]\<rparr>) rest)"
proof -
  have "scan_rows (str_to_float E) sid (before @ Row r # after)
          = scan_rows (str_to_float E) sid (Row r # after)"
    by (rule scan_rows_skip [OF assms(5)])
  also have "\<dots> = None" using assms(6,7) by simp
  finally have "find_csv E sid path = None" using assms(4) by (simp add: find_csv_def)
  then have f: "find_pred E sid (JObj kvs) = Inr None"
    using assms(1,2,3) by (simp add: find_pred_def)
  from process_module_missing [of E sid "(name, JObj kvs)" st] f obtain itp where
    "process_module E sid st (name, JObj kvs) =
       Inr (st\<lparr>acc_per_module := dict_set (acc_per_module st) name
                   (JObj [(''status'', JStr ''missing''), (''interpretation'', itp)]),
               missing := missing st @ [name]\<rparr>)"
    by auto
  then have "run_loop E sid st ((name, JObj kvs) # rest) =
            run_loop E sid
              (st\<lparr>acc_per_module := dict_set (acc_per_module st) name
                      (JObj [(''status'', JStr ''missing''), (''interpretation'', itp)]),
                  missing := missing st @ [name]\<rparr>) rest"
    by simp
  then show ?thesis using f by blast
qed

theorem unparseable_file_probability_is_missing_witness:
  "find_inline ''SUBJ002'' (JObj [(''predictions_path'', JStr ''eeg_predictions.csv'')]) = Inr None \<and>
   read_csv sample_env (JStr ''eeg_predictions.csv'') =
     Some ([Row [(''subject_id'', Some ''SUBJ001''), (''predicted_label'', Some ''AD''),
                 (''probability'', Some ''0.9'')]] @
           Row [(''subject_id'', Some ''SUBJ002''), (''predicted_label'', Some ''CN''),
                (''probability'', Some ''n/a'')] #
           [Row [(''subject_id'', Some ''SUBJ003''), (''predicted_label'', Some ''CN''),
                 (''probability'', Some ''0.25'')]]) \<and>
   py_float (str_to_float sample_env) (JStr ''n/a'') = Inl ValueError \<and>
   find_pred sample_env ''SUBJ002'' (JObj [(''predictions_path'', JStr ''eeg_predictions.csv'')]) = Inr None \<and>
   predict_subject sample_env ''SUBJ002''
     [(''eeg'', JObj [(''predictions_path'', JStr ''eeg_predictions.csv'')]),
      (''adni'', JObj [(''predictions'', JArr [sample_pred ''SUBJ002'' ''AD'' (3 / 4)])])] (1 / 2)
   = Inr \<lparr>subject_id = ''SUBJ002'',
           per_module = [(''eeg'', JObj [(''status'', JStr ''missing''), (''interpretation'', JStr [])]),
                         (''adni'', JObj [(''status'', JStr ''ok''), (''probability'', JNum (3 / 4)),
                                          (''label'', JStr ''AD'')])],
           ensemble = JObj [(''available_modules'', JNum 1), (''missing_modules'', JArr [JStr ''eeg'']),
                            (''probability'', JNum (3 / 4)), (''label'', JStr ''AD'')],
           final_label = ''AD''\<rparr>"
proof -
  let ?kvs = "[(''predictions_path'', JStr ''eeg_predictions.csv'')]"
  let ?r = "[(''subject_id'', Some ''SUBJ002''), (''predicted_label'', Some ''CN''),
             (''probability'', Some ''n/a'')]"
  let ?before = "[Row [(''subject_id'', Some ''SUBJ001''), (''predicted_label'', Some ''AD''),
                       (''probability'', Some ''0.9'')]]"
  let ?after = "[Row [(''subject_id'', Some ''SUBJ003''), (''predicted_label'', Some ''CN''),
                      (''probability'', Some ''0.25'')]]"
  have h1: "find_inline ''SUBJ002'' (JObj ?kvs) = Inr None" by (simp add: find_inline_def)
  have h2: "py_get (JObj ?kvs) ''predictions_path'' JNull = Inr (JStr ''eeg_predictions.csv'')" by simp
  have h3: "truthy (JStr ''eeg_predictions.csv'')" by simp
  have h4: "read_csv sample_env (JStr ''eeg_predictions.csv'') = Some (?before @ Row ?r # ?after)"
    by (simp add: sample_env_def)
  have h5: "\<forall>it \<in> set ?before. \<exists>r'. it = Row r' \<and> cell (map_of r' ''subject_id'') JNull \<noteq> JStr ''SUBJ002''"
    by simp
  have h6: "cell (map_of ?r ''subject_id'') JNull = JStr ''SUBJ002''" by simp
  have h7: "py_float (str_to_float sample_env) (cell (map_of ?r ''probability'') (JNum 0)) = Inl ValueError"
    by (simp add: sample_env_def)
  have h7': "py_float (str_to_float sample_env) (JStr ''n/a'') = Inl ValueError"
    by (simp add: sample_env_def)
  note t = unparseable_file_probability_is_missing [OF h1 h2 h3 h4 h5 h6 h7]
  have c: "find_pred sample_env ''SUBJ002'' (JObj ?kvs) = Inr None" by (rule t [THEN conjunct1])
  have run: "predict_subject sample_env ''SUBJ002''
     [(''eeg'', JObj ?kvs),
      (''adni'', JObj [(''predictions'', JArr [sample_pred ''SUBJ002'' ''AD'' (3 / 4)])])] (1 / 2)
   = Inr \<lparr>subject_id = ''SUBJ002'',
           per_module = [(''eeg'', JObj [(''status'', JStr ''missing''), (''interpretation'', JStr [])]),
                         (''adni'', JObj [(''status'', JStr ''ok''), (''probability'', JNum (3 / 4)),
                                          (''label'', JStr ''AD'')])],
           ensemble = JObj [(''available_modules'', JNum 1), (''missing_modules'', JArr [JStr ''eeg'']),
                            (''probability'', JNum (3 / 4)), (''label'', JStr ''AD'')],
           final_label = ''AD''\<rparr>"
    by (simp add: eval_defs)
  show ?thesis
    apply (intro conjI)
        apply (rule h1)
       apply (rule h4)
      apply (rule h7')
     apply (rule c)
    apply (rule run)
    done
qed

text \<open>
  Claim C5 as the specification words it fails.  A prediction with no probability at all is
  not a missing modality: \<^verbatim>\<open>pred.get("probability", 0.0)\<close> (line 94) gives it the probability
  0.0, the modality has status \<^verbatim>\<open>ok\<close> and it enters the weighted average.
\<close>

theorem prediction_without_probability_is_ok:
  "predict_subject sample_env ''SUBJ001''
     [(''eeg'', JObj [(''predictions'',
          JArr [JObj [(''subject_id'', JStr ''SUBJ001''), (''predicted_label'', JStr ''AD'')]])])] (1 / 2)
   = Inr \<lparr>subject_id = ''SUBJ001'',
           per_module = [(''eeg'', JObj [(''status'', JStr ''ok''), (''probability'', JNum 0),
                                         (''label'', JStr ''AD'')])],
           ensemble = JObj [(''available_modules'', JNum 1), (''missing_modules'', JArr []),
                            (''probability'', JNum 0), (''label'', JStr ''CN'')],
           final_label = ''CN''\<rparr>"
  by (simp add: eval_defs)








end
